theory Spec2Isabelle
  imports Main "HOL-Library.Sublist"
begin

section \<open>PipeJS: a shallow embedding of the parser, the executor, the state store and the scheduler\<close>

text \<open>
  The embedding follows the TypeScript sources function by function:
  \<^item> \<^verbatim>\<open>src/core/parser.ts\<close> (class PipelineParser),
  \<^item> \<^verbatim>\<open>src/core/executor.ts\<close> (class PipelineExecutor),
  \<^item> \<^verbatim>\<open>src/core/state.ts\<close> (FileStateManager and SQLiteStateManager),
  \<^item> the scheduler (class PipelineScheduler).

  Conventions. A JavaScript value read from a configuration document is a \<open>jsval\<close>;
  numbers are modelled as integers (fractions, NaN and infinities are outside the model),
  and an integer stands for the number of that value. A string is the list of the bytes
  of its UTF-8 encoding.
  Arrays that the code mutates in place (\<open>warnings\<close>, \<open>errors\<close>) are passed and returned.
  A \<open>throw\<close> is the \<open>Inl\<close> branch of a sum. Time is a natural number of milliseconds.
\<close>

subsection \<open>JavaScript values\<close>

datatype jsval =
    JUndefined
  | JNull
  | JBool bool
  | JNum int
  | JStr string
  | JArr "jsval list"
  | JObj "(string \<times> jsval) list"

text \<open>Truthiness, as \<open>if (x)\<close>, \<open>x && y\<close> and \<open>!x\<close> read a value.\<close>

fun truthy :: "jsval \<Rightarrow> bool" where
  "truthy JUndefined = False"
| "truthy JNull = False"
| "truthy (JBool b) = b"
| "truthy (JNum n) = (n \<noteq> 0)"
| "truthy (JStr s) = (s \<noteq> [])"
| "truthy (JArr xs) = True"
| "truthy (JObj kvs) = True"

text \<open>\<open>typeof x === 'object'\<close> holds of null, of arrays and of objects.\<close>

fun typeof_object :: "jsval \<Rightarrow> bool" where
  "typeof_object JNull = True"
| "typeof_object (JArr xs) = True"
| "typeof_object (JObj kvs) = True"
| "typeof_object v = False"

fun typeof_string :: "jsval \<Rightarrow> bool" where
  "typeof_string (JStr s) = True"
| "typeof_string v = False"

fun typeof_number :: "jsval \<Rightarrow> bool" where
  "typeof_number (JNum n) = True"
| "typeof_number v = False"

fun isArray :: "jsval \<Rightarrow> bool" where
  "isArray (JArr xs) = True"
| "isArray v = False"

text \<open>
  Property access \<open>x.key\<close> on a value that is neither null nor undefined. None of the keys
  the parser reads is a built-in property of arrays, strings, numbers or booleans, so the
  access yields undefined there. An object is an association list; the first binding of a
  key is the one read.
\<close>

fun get_prop :: "jsval \<Rightarrow> string \<Rightarrow> jsval" where
  "get_prop (JObj kvs) k = (case map_of kvs k of Some v \<Rightarrow> v | None \<Rightarrow> JUndefined)"
| "get_prop v k = JUndefined"

subsection \<open>Strings\<close>

text \<open>
  The white space that \<open>String.prototype.trim\<close> removes, each character as the bytes of its
  UTF-8 encoding: TAB, LF, VT, FF, CR, SPACE, U+00A0, U+1680, U+2000 to U+200A, U+2028,
  U+2029, U+202F, U+205F, U+3000 and U+FEFF.
\<close>

definition white_space :: "string list" where
  "white_space =
     [[CHR 0x09], [CHR 0x0A], [CHR 0x0B], [CHR 0x0C], [CHR 0x0D], [CHR 0x20],
      [CHR 0xC2, CHR 0xA0],
      [CHR 0xE1, CHR 0x9A, CHR 0x80],
      [CHR 0xE2, CHR 0x80, CHR 0x80], [CHR 0xE2, CHR 0x80, CHR 0x81], [CHR 0xE2, CHR 0x80, CHR 0x82],
      [CHR 0xE2, CHR 0x80, CHR 0x83], [CHR 0xE2, CHR 0x80, CHR 0x84], [CHR 0xE2, CHR 0x80, CHR 0x85],
      [CHR 0xE2, CHR 0x80, CHR 0x86], [CHR 0xE2, CHR 0x80, CHR 0x87], [CHR 0xE2, CHR 0x80, CHR 0x88],
      [CHR 0xE2, CHR 0x80, CHR 0x89], [CHR 0xE2, CHR 0x80, CHR 0x8A],
      [CHR 0xE2, CHR 0x80, CHR 0xA8], [CHR 0xE2, CHR 0x80, CHR 0xA9], [CHR 0xE2, CHR 0x80, CHR 0xAF],
      [CHR 0xE2, CHR 0x81, CHR 0x9F],
      [CHR 0xE3, CHR 0x80, CHR 0x80],
      [CHR 0xEF, CHR 0xBB, CHR 0xBF]]"

text \<open>The number of bytes of the character of \<open>ws\<close> that \<open>s\<close> starts with, 0 when there is none.\<close>

definition leading_space :: "string list \<Rightarrow> string \<Rightarrow> nat" where
  "leading_space ws s =
     (case filter (\<lambda>w. w \<noteq> [] \<and> prefix w s) ws of [] \<Rightarrow> 0 | w # rest \<Rightarrow> length w)"

lemma leading_space_drops: "leading_space ws s \<noteq> 0 \<Longrightarrow> length (drop (leading_space ws s) s) < length s"
proof -
  assume a: "leading_space ws s \<noteq> 0"
  then obtain w rest where f: "filter (\<lambda>w. w \<noteq> [] \<and> prefix w s) ws = w # rest"
    by (auto simp: leading_space_def split: list.splits)
  then have "w \<in> set (filter (\<lambda>w. w \<noteq> [] \<and> prefix w s) ws)" by simp
  then have "w \<noteq> []" "prefix w s" by auto
  then have "0 < length s" by auto
  moreover from a have "0 < leading_space ws s" by simp
  ultimately show ?thesis by simp
qed

function strip_leading :: "string list \<Rightarrow> string \<Rightarrow> string" where
  "strip_leading ws s =
     (if leading_space ws s = 0 then s else strip_leading ws (drop (leading_space ws s) s))"
  by pat_completeness auto
termination
proof (relation "measure (\<lambda>(ws, s). length s)", goal_cases)
  case 1
  then show ?case by simp
next
  case (2 ws s)
  then show ?case using leading_space_drops [of ws s] by simp
qed

declare strip_leading.simps [simp del]

text \<open>\<open>String.prototype.trim\<close>: the white space at the start and at the end is removed.\<close>

definition trim :: "string \<Rightarrow> string" where
  "trim s = rev (strip_leading (map rev white_space) (rev (strip_leading white_space s)))"

text \<open>\<open>s.split(c)\<close> for a one-character separator: adjacent separators give empty parts.\<close>

fun split_on :: "char \<Rightarrow> string \<Rightarrow> string list" where
  "split_on c [] = [[]]"
| "split_on c (x # xs) =
     (if x = c then [] # split_on c xs
      else (case split_on c xs of [] \<Rightarrow> [[x]] | p # ps \<Rightarrow> (x # p) # ps))"

text \<open>\<open>xs.join(sep)\<close>.\<close>

fun join :: "string \<Rightarrow> string list \<Rightarrow> string" where
  "join sep [] = []"
| "join sep [x] = x"
| "join sep (x # y # ys) = x @ sep @ join sep (y # ys)"

text \<open>Decimal numerals, as template literals print a number.\<close>

fun string_of_nat :: "nat \<Rightarrow> string" where
  "string_of_nat n =
     (if n < 10 then [char_of (48 + n)]
      else string_of_nat (n div 10) @ [char_of (48 + n mod 10)])"

declare string_of_nat.simps [simp del]

text \<open>The decimal digits of an integer that is not negative.\<close>

function decimal :: "int \<Rightarrow> string" where
  "decimal i =
     (if i < 10 then [char_of (48 + i)]
      else decimal (i div 10) @ [char_of (48 + i mod 10)])"
  by pat_completeness auto
termination
  by (relation "measure nat") auto

declare decimal.simps [simp del]

definition string_of_int :: "int \<Rightarrow> string" where
  "string_of_int i = (if i < 0 then ''-'' @ decimal (- i) else decimal i)"

text \<open>
  \<open>Number.prototype.toString\<close> on an integer that a double holds exactly: its decimal digits
  below \<open>10^21\<close>, and from there on the exponent form, the digits without their trailing
  zeros, a point after the first one, and the exponent (\<open>1e+21\<close>, \<open>1.5e+21\<close>).
\<close>

definition exponent_form :: "int \<Rightarrow> string" where
  "exponent_form n =
     (let ds = decimal n;
          m = rev (dropWhile (\<lambda>c. c = CHR ''0'') (rev ds))
      in take 1 m @ (if drop 1 m = [] then [] else ''.'' @ drop 1 m) @ ''e+'' @ decimal (int (length ds) - 1))"

definition Number_toString :: "int \<Rightarrow> string" where
  "Number_toString i =
     (if \<bar>i\<bar> < 10 ^ 21 then string_of_int i
      else (if i < 0 then ''-'' else []) @ exponent_form \<bar>i\<bar>)"

text \<open>The double quote and the single quote, which several messages contain.\<close>

definition dq :: string where
  "dq = [CHR 0x22]"

definition sq :: string where
  "sq = [CHR 0x27]"

text \<open>\<open>String(v)\<close>, as a template literal prints a value.\<close>

fun js_String :: "jsval \<Rightarrow> string" where
  "js_String JUndefined = ''undefined''"
| "js_String JNull = ''null''"
| "js_String (JBool b) = (if b then ''true'' else ''false'')"
| "js_String (JNum n) = Number_toString n"
| "js_String (JStr s) = s"
| "js_String (JArr xs) =
     join '','' (map (\<lambda>x. if x = JUndefined \<or> x = JNull then [] else js_String x) xs)"
| "js_String (JObj kvs) = ''[object Object]''"

subsection \<open>The data model (types.ts)\<close>

record RetryPolicy =
  retry_attempts :: int
  retry_delay :: int

text \<open>
  A task. The parser stores \<open>description\<close> and \<open>config\<close> as it read them. The optional
  fields of the interface are options.
\<close>

record Task =
  task_id :: string
  task_name :: string
  task_description :: jsval
  plugin :: string
  config :: jsval
  dependsOn :: "string list option"
  retry :: "RetryPolicy option"
  timeout :: "int option"
  enabled :: "bool option"

datatype TriggerType = Cron | Webhook | Manual

record PipelineTrigger =
  trigger_type :: TriggerType
  trigger_config :: jsval

text \<open>
  A pipeline. \<open>description\<close>, \<open>concurrency\<close>, \<open>env\<close> and \<open>timeout\<close> are stored by the parser
  under a type cast only, so they are whatever the document held.
\<close>

record Pipeline =
  pipeline_name :: string
  version :: string
  pipeline_description :: jsval
  tasks :: "Task list"
  triggers :: "PipelineTrigger list option"
  concurrency :: jsval
  env :: jsval
  pipeline_timeout :: jsval

text \<open>\<open>task.dependsOn || []\<close>.\<close>

definition deps :: "Task \<Rightarrow> string list" where
  "deps t = (case dependsOn t of None \<Rightarrow> [] | Some ds \<Rightarrow> ds)"

subsection \<open>The parser (core/parser.ts)\<close>

record ParserOptions =
  opt_validate :: bool
  opt_strict :: bool

text \<open>The constructor's defaults: \<open>validate ?? true\<close>, \<open>strict ?? false\<close>.\<close>

definition PipelineParser :: "bool option \<Rightarrow> bool option \<Rightarrow> ParserOptions" where
  "PipelineParser v s =
     \<lparr>opt_validate = (case v of None \<Rightarrow> True | Some b \<Rightarrow> b),
      opt_strict = (case s of None \<Rightarrow> False | Some b \<Rightarrow> b)\<rparr>"

text \<open>
  What the parser can throw: a ValidationError with its message, or a TypeError of the
  JavaScript engine (calling \<open>trim\<close> on a value that has none).
\<close>

datatype exn = ValidationError string | TypeError string

record ParseResult =
  res_pipeline :: Pipeline
  res_warnings :: "string list"
  res_errors :: "string list"

text \<open>
  \<open>(x as string)?.trim()\<close>: undefined for null and undefined, the trimmed string for a
  string, and a TypeError for any other value (the cast checks nothing). The default of
  \<open>|| d\<close> replaces undefined and the empty string.
\<close>

fun opt_trim_or :: "string \<Rightarrow> jsval \<Rightarrow> string \<Rightarrow> exn + string" where
  "opt_trim_or what JUndefined d = Inr d"
| "opt_trim_or what JNull d = Inr d"
| "opt_trim_or what (JStr s) d = Inr (if trim s = [] then d else trim s)"
| "opt_trim_or what v d = Inl (TypeError (what @ ''?.trim is not a function''))"

text \<open>A string that is non-empty after trimming: \<open>typeof x === 'string' && x.trim()\<close>.\<close>

fun nonempty_string :: "jsval \<Rightarrow> bool" where
  "nonempty_string (JStr s) = (trim s \<noteq> [])"
| "nonempty_string v = False"

fun validateDependencies_loop :: "string \<Rightarrow> jsval list \<Rightarrow> string list \<times> string list \<Rightarrow> string list \<times> string list" where
  "validateDependencies_loop taskId [] (dependencies, errors) = (dependencies, errors)"
| "validateDependencies_loop taskId (dep # rest) (dependencies, errors) =
     (case dep of
        JStr s \<Rightarrow> validateDependencies_loop taskId rest (dependencies @ [trim s], errors)
      | _ \<Rightarrow> validateDependencies_loop taskId rest
              (dependencies,
               errors @ [''Task '' @ dq @ taskId @ dq @ '' dependsOn contains non-string value: '' @ js_String dep]))"

text \<open>Returns the dependencies and the errors array.\<close>

definition validateDependencies :: "jsval \<Rightarrow> string \<Rightarrow> string list \<Rightarrow> string list \<times> string list" where
  "validateDependencies dependsOn_v taskId errors =
     (case dependsOn_v of
        JUndefined \<Rightarrow> ([], errors)
      | JNull \<Rightarrow> ([], errors)
      | JArr ds \<Rightarrow> validateDependencies_loop taskId ds ([], errors)
      | _ \<Rightarrow> ([], errors @ [''Task '' @ dq @ taskId @ dq @ '' dependsOn should be an array of task IDs'']))"

text \<open>Returns the retry policy and the warnings array. \<open>Math.floor\<close> is the identity on integers.\<close>

definition validateRetryConfig :: "jsval \<Rightarrow> string \<Rightarrow> string list \<Rightarrow> RetryPolicy option \<times> string list" where
  "validateRetryConfig retry_v taskId warnings =
     (if retry_v = JUndefined \<or> retry_v = JNull then (None, warnings)
      else if \<not> typeof_object retry_v \<or> isArray retry_v
        then (None, warnings @ [''Task '' @ dq @ taskId @ dq @ '' retry should be an object, ignoring''])
      else
        let attempts = (case get_prop retry_v ''attempts'' of JNum n \<Rightarrow> max 0 n | _ \<Rightarrow> 0);
            delay = (case get_prop retry_v ''delay'' of JNum n \<Rightarrow> max 0 n | _ \<Rightarrow> 1000)
        in if attempts > 0
           then (Some \<lparr>retry_attempts = attempts, retry_delay = delay\<rparr>, warnings)
           else (None, warnings))"

text \<open>
  The state of the loop of \<open>validateTasks\<close>: the validated tasks, the ids seen, the
  warnings and the errors.
\<close>

type_synonym tasks_state = "Task list \<times> string list \<times> string list \<times> string list"

text \<open>One iteration of the loop over \<open>tasks.entries()\<close>; every \<open>continue\<close> returns the state.\<close>

definition validateTask :: "nat \<Rightarrow> jsval \<Rightarrow> tasks_state \<Rightarrow> exn + tasks_state" where
  "validateTask index t st =
     (case st of (validatedTasks, taskIds, warnings, errors) \<Rightarrow>
      if \<not> typeof_object t \<or> t = JNull
        then Inr (validatedTasks, taskIds, warnings,
                  errors @ [''Task at index '' @ string_of_nat index @ '' must be an object''])
      else if \<not> nonempty_string (get_prop t ''id'')
        then Inr (validatedTasks, taskIds, warnings,
                  errors @ [''Task at index '' @ string_of_nat index @ '' must have a non-empty '' @ dq @ ''id'' @ dq @ '' string''])
      else
        let id_s = js_String (get_prop t ''id'');
            warnings1 = (if \<not> nonempty_string (get_prop t ''name'')
                         then warnings @ [''Task '' @ dq @ id_s @ dq @ '' should have a non-empty '' @ dq @ ''name'' @ dq @ '' string'']
                         else warnings)
        in if \<not> nonempty_string (get_prop t ''plugin'')
          then Inr (validatedTasks, taskIds, warnings1,
                    errors @ [''Task '' @ dq @ id_s @ dq @ '' must have a non-empty '' @ dq @ ''plugin'' @ dq @ '' string''])
        else
          let taskId = trim id_s in
          if taskId \<in> set taskIds
            then Inr (validatedTasks, taskIds, warnings1, errors @ [''Duplicate task ID: '' @ taskId])
          else
            let taskIds1 = taskIds @ [taskId];
                config_v = (if truthy (get_prop t ''config'') \<and> typeof_object (get_prop t ''config'')
                            then get_prop t ''config'' else JObj []);
                warnings2 = (if \<not> typeof_object config_v
                             then warnings1 @ [''Task '' @ dq @ taskId @ dq @ '' config should be an object'']
                             else warnings1);
                (dependencies, errors1) = validateDependencies (get_prop t ''dependsOn'') taskId errors;
                (retry_p, warnings3) = validateRetryConfig (get_prop t ''retry'') taskId warnings2;
                (timeout_v, warnings4) =
                   (case get_prop t ''timeout'' of
                      JUndefined \<Rightarrow> (None, warnings3)
                    | JNum n \<Rightarrow>
                        if n > 0 then (Some n, warnings3)
                        else (None, warnings3 @ [''Task '' @ dq @ taskId @ dq @ '' timeout should be a positive number, ignoring''])
                    | _ \<Rightarrow> (None, warnings3 @ [''Task '' @ dq @ taskId @ dq @ '' timeout should be a positive number, ignoring'']))
            in (case opt_trim_or ''t.name'' (get_prop t ''name'') taskId of
                  Inl e \<Rightarrow> Inl e
                | Inr name_s \<Rightarrow>
                    Inr (validatedTasks @
                           [\<lparr>task_id = taskId,
                             task_name = name_s,
                             task_description = get_prop t ''description'',
                             plugin = trim (js_String (get_prop t ''plugin'')),
                             config = config_v,
                             dependsOn = Some dependencies,
                             retry = retry_p,
                             timeout = timeout_v,
                             enabled = Some (get_prop t ''enabled'' \<noteq> JBool False)\<rparr>],
                         taskIds1, warnings4, errors1)))"

fun validateTasks_loop :: "nat \<Rightarrow> jsval list \<Rightarrow> tasks_state \<Rightarrow> exn + tasks_state" where
  "validateTasks_loop index [] st = Inr st"
| "validateTasks_loop index (t # rest) st =
     (case validateTask index t st of
        Inl e \<Rightarrow> Inl e
      | Inr st1 \<Rightarrow> validateTasks_loop (Suc index) rest st1)"

text \<open>
  \<open>validateTasks\<close> is only called on an array (its own \<open>Array.isArray\<close> test never fails).
  Returns the tasks, the warnings and the errors.
\<close>

definition validateTasks :: "jsval list \<Rightarrow> string list \<Rightarrow> string list \<Rightarrow> exn + (Task list \<times> string list \<times> string list)" where
  "validateTasks tasks_v warnings errors =
     (let warnings1 = (if length tasks_v = 0 then warnings @ [''Pipeline has no tasks''] else warnings)
      in case validateTasks_loop 0 tasks_v ([], [], warnings1, errors) of
           Inl e \<Rightarrow> Inl e
         | Inr (validatedTasks, taskIds, warnings2, errors2) \<Rightarrow> Inr (validatedTasks, warnings2, errors2))"

text \<open>Returns the warnings and the errors.\<close>

definition validateCronTrigger :: "jsval \<Rightarrow> nat \<Rightarrow> string list \<Rightarrow> string list \<Rightarrow> string list \<times> string list" where
  "validateCronTrigger c index errors warnings =
     (let errors1 = (if \<not> nonempty_string (get_prop c ''expression'')
                     then errors @ [''Cron trigger at index '' @ string_of_nat index @ '' must have an '' @ dq @ ''expression'' @ dq @ '' string'']
                     else errors);
          warnings1 = (if truthy (get_prop c ''timezone'') \<and> \<not> typeof_string (get_prop c ''timezone'')
                       then warnings @ [''Cron trigger at index '' @ string_of_nat index @ '' timezone should be a string'']
                       else warnings);
          warnings2 = (case get_prop c ''expression'' of
                         JStr s \<Rightarrow>
                           let expr = trim s; parts = split_on CHR 0x20 expr
                           in if length parts \<noteq> 5
                              then warnings1 @ [''Cron expression '' @ dq @ expr @ dq @ '' at index '' @ string_of_nat index @ '' should have 5 parts'']
                              else warnings1
                       | _ \<Rightarrow> warnings1)
      in (warnings2, errors1))"

definition validateWebhookTrigger :: "jsval \<Rightarrow> nat \<Rightarrow> string list \<Rightarrow> string list \<Rightarrow> string list \<times> string list" where
  "validateWebhookTrigger c index errors warnings =
     (let errors1 = (if \<not> nonempty_string (get_prop c ''path'')
                     then errors @ [''Webhook trigger at index '' @ string_of_nat index @ '' must have a '' @ dq @ ''path'' @ dq @ '' string'']
                     else errors);
          warnings1 = (if truthy (get_prop c ''method'') \<and> get_prop c ''method'' \<notin> set [JStr ''GET'', JStr ''POST'', JStr ''PUT'']
                       then warnings @ [''Webhook trigger at index '' @ string_of_nat index @ '' method should be GET, POST, or PUT'']
                       else warnings);
          warnings2 = (if truthy (get_prop c ''secret'') \<and> \<not> typeof_string (get_prop c ''secret'')
                       then warnings1 @ [''Webhook trigger at index '' @ string_of_nat index @ '' secret should be a string'']
                       else warnings1)
      in (warnings2, errors1))"

text \<open>The state of the loop of \<open>validateTriggers\<close>: the validated triggers, the warnings, the errors.\<close>

type_synonym triggers_state = "PipelineTrigger list \<times> string list \<times> string list"

definition validateTrigger :: "nat \<Rightarrow> jsval \<Rightarrow> triggers_state \<Rightarrow> triggers_state" where
  "validateTrigger index t st =
     (case st of (validatedTriggers, warnings, errors) \<Rightarrow>
      if \<not> typeof_object t \<or> t = JNull
        then (validatedTriggers, warnings, errors @ [''Trigger at index '' @ string_of_nat index @ '' must be an object''])
      else if \<not> typeof_string (get_prop t ''type'')
        then (validatedTriggers, warnings,
              errors @ [''Trigger at index '' @ string_of_nat index @ '' must have a '' @ dq @ ''type'' @ dq @ '' string''])
      else if \<not> truthy (get_prop t ''config'') \<or> \<not> typeof_object (get_prop t ''config'')
        then (validatedTriggers, warnings,
              errors @ [''Trigger at index '' @ string_of_nat index @ '' must have a '' @ dq @ ''config'' @ dq @ '' object''])
      else
        let ty = js_String (get_prop t ''type''); c = get_prop t ''config'' in
        if ty = ''cron'' then
          (let (warnings1, errors1) = validateCronTrigger c index errors warnings
           in (validatedTriggers @ [\<lparr>trigger_type = Cron, trigger_config = c\<rparr>], warnings1, errors1))
        else if ty = ''webhook'' then
          (let (warnings1, errors1) = validateWebhookTrigger c index errors warnings
           in (validatedTriggers @ [\<lparr>trigger_type = Webhook, trigger_config = c\<rparr>], warnings1, errors1))
        else if ty = ''manual'' then
          (validatedTriggers @ [\<lparr>trigger_type = Manual, trigger_config = c\<rparr>], warnings, errors)
        else
          (validatedTriggers,
           warnings @ [''Unknown trigger type: '' @ ty @ '' at index '' @ string_of_nat index], errors))"

fun validateTriggers_loop :: "nat \<Rightarrow> jsval list \<Rightarrow> triggers_state \<Rightarrow> triggers_state" where
  "validateTriggers_loop index [] st = st"
| "validateTriggers_loop index (t # rest) st = validateTriggers_loop (Suc index) rest (validateTrigger index t st)"

text \<open>Returns the triggers (undefined when the value is no array), the warnings and the errors.\<close>

definition validateTriggers :: "jsval \<Rightarrow> string list \<Rightarrow> string list \<Rightarrow> PipelineTrigger list option \<times> string list \<times> string list" where
  "validateTriggers triggers_v warnings errors =
     (case triggers_v of
        JArr ts \<Rightarrow>
          (case validateTriggers_loop 0 ts ([], warnings, errors) of
             (validatedTriggers, warnings1, errors1) \<Rightarrow> (Some validatedTriggers, warnings1, errors1))
      | _ \<Rightarrow> (None, warnings, errors @ [''Triggers must be an array'']))"

subsubsection \<open>The structure of the graph\<close>

text \<open>
  \<open>detectCycles\<close> is a depth-first search that recurses through the loop over the
  dependencies of a task. The recursion is written here with its call stack made explicit:
  \<open>Enter taskId\<close> is a pending call \<open>detectCycles(taskId, ...)\<close>, and \<open>Leave taskId\<close> is the
  \<open>recursionStack.delete(taskId)\<close> that ends a call once the loop over its dependencies is
  done. The state is \<open>(visited, recursionStack, errors)\<close>.
\<close>

datatype frame = Enter string | Leave string

definition find_deps :: "Task list \<Rightarrow> string \<Rightarrow> string list" where
  "find_deps ts taskId = (case find (\<lambda>t. task_id t = taskId) ts of None \<Rightarrow> [] | Some t \<Rightarrow> deps t)"

fun frame_weight :: "frame \<Rightarrow> nat" where
  "frame_weight (Enter x) = 2"
| "frame_weight (Leave x) = 1"

type_synonym dfs_state = "string list \<times> string list \<times> string list"

lemma find_deps_not_task: "taskId \<notin> task_id ` set ts \<Longrightarrow> find_deps ts taskId = []"
  by (auto simp: find_deps_def find_Some_iff nth_mem image_iff split: option.splits)

function detectCycles_run :: "Task list \<Rightarrow> frame list \<Rightarrow> dfs_state \<Rightarrow> dfs_state" where
  "detectCycles_run ts [] st = st"
| "detectCycles_run ts (Leave taskId # fs) (visited, recursionStack, errors) =
     detectCycles_run ts fs (visited, removeAll taskId recursionStack, errors)"
| "detectCycles_run ts (Enter taskId # fs) (visited, recursionStack, errors) =
     (if taskId \<in> set recursionStack
        then detectCycles_run ts fs
               (visited, recursionStack, errors @ [''Circular dependency detected involving task: '' @ taskId])
      else if taskId \<in> set visited
        then detectCycles_run ts fs (visited, recursionStack, errors)
      else detectCycles_run ts (map Enter (find_deps ts taskId) @ Leave taskId # fs)
             (taskId # visited, taskId # recursionStack, errors))"
  by pat_completeness auto
termination
proof (relation "measures [\<lambda>(ts, fs, visited, recursionStack, errors). card (task_id ` set ts - set visited),
                           \<lambda>(ts, fs, st). sum_list (map frame_weight fs)]", goal_cases)
  case 1
  then show ?case by simp
next
  case (2 ts taskId fs visited recursionStack errors)
  then show ?case by simp
next
  case (3 ts taskId fs visited recursionStack errors)
  then show ?case by simp
next
  case (4 ts taskId fs visited recursionStack errors)
  then show ?case by simp
next
  case (5 ts taskId fs visited recursionStack errors)
  show ?case
  proof (cases "taskId \<in> task_id ` set ts")
    case True
    have "task_id ` set ts - set (taskId # visited) \<subset> task_id ` set ts - set visited"
      using True 5 by auto
    then have "card (task_id ` set ts - set (taskId # visited)) < card (task_id ` set ts - set visited)"
      by (intro psubset_card_mono) auto
    then show ?thesis by simp
  next
    case False
    then have "task_id ` set ts - set (taskId # visited) = task_id ` set ts - set visited"
      by auto
    then show ?thesis using False by (simp add: find_deps_not_task)
  qed
qed

definition detectCycles :: "string \<Rightarrow> Task list \<Rightarrow> dfs_state \<Rightarrow> dfs_state" where
  "detectCycles taskId ts st = detectCycles_run ts [Enter taskId] st"

text \<open>The inner loop of the first pass: an error for every dependency that names no task.\<close>

definition missing_dependency_errors :: "string list \<Rightarrow> Task \<Rightarrow> string list" where
  "missing_dependency_errors taskIds task =
     map (\<lambda>depId. ''Task '' @ dq @ task_id task @ dq @ '' depends on non-existent task: '' @ depId)
         (filter (\<lambda>depId. depId \<notin> set taskIds) (deps task))"

text \<open>The first loop of \<open>validateDAGStructure\<close> over \<open>pipeline.tasks\<close>.\<close>

fun validateDAG_loop :: "Task list \<Rightarrow> string list \<Rightarrow> Task list \<Rightarrow> dfs_state \<Rightarrow> dfs_state" where
  "validateDAG_loop ts taskIds [] st = st"
| "validateDAG_loop ts taskIds (task # rest) st =
     (case (if task_id task \<notin> set (fst st) then detectCycles (task_id task) ts st else st) of
        (visited, recursionStack, errors) \<Rightarrow>
          validateDAG_loop ts taskIds rest
            (visited, recursionStack, errors @ missing_dependency_errors taskIds task))"

text \<open>The set \<open>hasDependents\<close>: every id that some task names as a dependency.\<close>

definition hasDependents :: "Pipeline \<Rightarrow> string list" where
  "hasDependents pipeline = concat (map deps (tasks pipeline))"

definition orphanedTasks :: "Pipeline \<Rightarrow> Task list" where
  "orphanedTasks pipeline =
     filter (\<lambda>task. (dependsOn task = None \<or> length (deps task) = 0) \<and> task_id task \<notin> set (hasDependents pipeline))
            (tasks pipeline)"

definition multiple_roots_error :: "Task list \<Rightarrow> string" where
  "multiple_roots_error orphaned =
     ''Multiple root tasks found: '' @ join '', '' (map task_id orphaned) @ ''. Pipeline should have a single entry point.''"

text \<open>Returns the errors array.\<close>

definition validateDAGStructure :: "Pipeline \<Rightarrow> string list \<Rightarrow> string list" where
  "validateDAGStructure pipeline errors =
     (case validateDAG_loop (tasks pipeline) (map task_id (tasks pipeline)) (tasks pipeline) ([], [], errors) of
        (visited, recursionStack, errors1) \<Rightarrow>
          if length (orphanedTasks pipeline) > 1
          then errors1 @ [multiple_roots_error (orphanedTasks pipeline)]
          else errors1)"

subsubsection \<open>validatePipeline and parse\<close>

text \<open>Returns the pipeline, the warnings and the errors; throws as the code does.\<close>

definition validatePipeline :: "jsval \<Rightarrow> string list \<Rightarrow> string list \<Rightarrow> exn + (Pipeline \<times> string list \<times> string list)" where
  "validatePipeline p warnings errors =
     (if \<not> typeof_object p \<or> p = JNull then Inl (ValidationError ''Pipeline must be an object'')
      else
        let errors1 = (if \<not> nonempty_string (get_prop p ''name'')
                       then errors @ [''Pipeline must have a non-empty '' @ dq @ ''name'' @ dq @ '' string'']
                       else errors);
            errors2 = (if \<not> nonempty_string (get_prop p ''version'')
                       then errors1 @ [''Pipeline must have a non-empty '' @ dq @ ''version'' @ dq @ '' string'']
                       else errors1);
            errors3 = (if \<not> isArray (get_prop p ''tasks'')
                       then errors2 @ [''Pipeline must have a '' @ dq @ ''tasks'' @ dq @ '' array'']
                       else errors2);
            warnings1 = (if truthy (get_prop p ''description'') \<and> \<not> typeof_string (get_prop p ''description'')
                         then warnings @ [''Pipeline description should be a string'']
                         else warnings);
            warnings2 = (if truthy (get_prop p ''concurrency'') \<and>
                            (case get_prop p ''concurrency'' of JNum n \<Rightarrow> n < 1 | _ \<Rightarrow> True)
                         then warnings1 @ [''Pipeline concurrency should be a positive number, using default'']
                         else warnings1);
            warnings3 = (if truthy (get_prop p ''timeout'') \<and>
                            (case get_prop p ''timeout'' of JNum n \<Rightarrow> n < 0 | _ \<Rightarrow> True)
                         then warnings2 @ [''Pipeline timeout should be a non-negative number, using default'']
                         else warnings2);
            warnings4 = (if truthy (get_prop p ''env'') \<and>
                            (\<not> typeof_object (get_prop p ''env'') \<or> isArray (get_prop p ''env''))
                         then warnings3 @ [''Pipeline env should be an object, ignoring'']
                         else warnings3)
        in case (case get_prop p ''tasks'' of
                   JArr ts \<Rightarrow> validateTasks ts warnings4 errors3
                 | _ \<Rightarrow> Inr ([], warnings4, errors3)) of
             Inl e \<Rightarrow> Inl e
           | Inr (tasks_l, warnings5, errors4) \<Rightarrow>
               (case (if truthy (get_prop p ''triggers'')
                      then validateTriggers (get_prop p ''triggers'') warnings5 errors4
                      else (None, warnings5, errors4)) of
                  (triggers_o, warnings6, errors5) \<Rightarrow>
                    (case opt_trim_or ''p.name'' (get_prop p ''name'') ''unnamed-pipeline'' of
                       Inl e \<Rightarrow> Inl e
                     | Inr name_s \<Rightarrow>
                         (case opt_trim_or ''p.version'' (get_prop p ''version'') ''1.0.0'' of
                            Inl e \<Rightarrow> Inl e
                          | Inr version_s \<Rightarrow>
                              let result = \<lparr>pipeline_name = name_s,
                                            version = version_s,
                                            pipeline_description = get_prop p ''description'',
                                            tasks = tasks_l,
                                            triggers = triggers_o,
                                            concurrency = get_prop p ''concurrency'',
                                            env = get_prop p ''env'',
                                            pipeline_timeout = get_prop p ''timeout''\<rparr>
                              in Inr (result, warnings6, validateDAGStructure result errors5)))))"

text \<open>
  The body of the \<open>try\<close> block of \<open>parse\<close>. \<open>JSON.parse\<close> and the YAML \<open>load\<close> are library
  functions: they are parameters here, returning the value read or the message of the
  error they throw. Reading \<open>config.pipeline\<close> of null or undefined is a TypeError.
\<close>

definition parse_try :: "ParserOptions \<Rightarrow> (string \<Rightarrow> string + jsval) \<Rightarrow> (string \<Rightarrow> string + jsval) \<Rightarrow> string \<Rightarrow> exn + ParseResult" where
  "parse_try options JSON_parse yaml_load content =
     (case (if prefix ''{'' (trim content) then JSON_parse content else yaml_load content) of
        Inl m \<Rightarrow> Inl (TypeError m)
      | Inr config_v \<Rightarrow>
          if config_v = JUndefined \<or> config_v = JNull
            then Inl (TypeError (''Cannot read properties of '' @ js_String config_v @
                                 '' (reading '' @ sq @ ''pipeline'' @ sq @ '')''))
          else if \<not> truthy (get_prop config_v ''pipeline'')
            then Inl (ValidationError (''Missing '' @ dq @ ''pipeline'' @ dq @ '' root key in configuration''))
          else
            (case validatePipeline (get_prop config_v ''pipeline'') [] [] of
               Inl e \<Rightarrow> Inl e
             | Inr (pipeline, warnings, errors) \<Rightarrow>
                 if opt_validate options \<and> length errors > 0
                   then Inl (ValidationError ''Pipeline validation failed'')
                 else Inr \<lparr>res_pipeline = pipeline,
                           res_warnings = warnings,
                           res_errors = (if opt_strict options then warnings @ errors else errors)\<rparr>))"

text \<open>
  \<open>parse\<close>: the \<open>catch\<close> rethrows a ValidationError and wraps every other error in one.
  The result is \<open>Inl\<close> of the message of the ValidationError thrown, or \<open>Inr\<close> of the value
  returned.
\<close>

definition parse :: "ParserOptions \<Rightarrow> (string \<Rightarrow> string + jsval) \<Rightarrow> (string \<Rightarrow> string + jsval) \<Rightarrow> string \<Rightarrow> string + ParseResult" where
  "parse options JSON_parse yaml_load content =
     (case parse_try options JSON_parse yaml_load content of
        Inl (ValidationError m) \<Rightarrow> Inl m
      | Inl (TypeError m) \<Rightarrow> Inl (''Failed to parse pipeline configuration: '' @ m)
      | Inr r \<Rightarrow> Inr r)"

subsection \<open>Runs and task executions (types.ts)\<close>

datatype TaskStatus = Pending | Running | Success | Failed | Skipped | Cancelled

datatype PipelineStatus = RunRunning | RunSuccess | RunFailed | RunCancelled | RunPartialSuccess

text \<open>An absent \<open>output\<close> or \<open>metadata\<close> is \<open>JUndefined\<close>.\<close>

record PluginResult =
  success :: bool
  result_output :: jsval
  result_error :: "string option"
  result_metadata :: jsval

text \<open>A timestamp (a \<open>Date\<close>) is the number of milliseconds of the clock.\<close>

record TaskExecution =
  task :: Task
  status :: TaskStatus
  result :: "PluginResult option"
  startedAt :: "nat option"
  completedAt :: "nat option"
  attempts :: nat

record PipelineRun =
  run_id :: string
  pipelineName :: string
  run_status :: PipelineStatus
  run_startedAt :: nat
  run_completedAt :: "nat option"
  run_tasks :: "TaskExecution list"
  run_trigger :: PipelineTrigger
  run_error :: "string option"

subsection \<open>The state store (core/state.ts)\<close>

text \<open>
  What \<open>JSON.parse(JSON.stringify(v))\<close> returns for a value inside a document: an undefined
  array element becomes null and a property whose value is undefined is dropped.
\<close>

fun json_roundtrip :: "jsval \<Rightarrow> jsval" where
  "json_roundtrip (JArr xs) = JArr (map (\<lambda>x. if x = JUndefined then JNull else json_roundtrip x) xs)"
| "json_roundtrip (JObj kvs) =
     JObj (map (\<lambda>kv. (fst kv, json_roundtrip (snd kv))) (filter (\<lambda>kv. snd kv \<noteq> JUndefined) kvs))"
| "json_roundtrip v = v"

subsubsection \<open>FileStateManager\<close>

text \<open>
  The JSON document of the file backend: the array under the key \<open>pipeline_runs\<close> (absent
  until the first run is saved) and the other keys. Every operation loads the document,
  changes it and writes it back; reading and writing the file are assumed not to fail.
  A run in the document has been through \<open>JSON.stringify\<close>: its timestamps are the ISO
  strings of the dates, which the same numbers stand for here.
\<close>

record FileState =
  pipeline_runs :: "PipelineRun list option"
  file_kv :: "(string \<times> jsval) list"

definition stringify_result :: "PluginResult \<Rightarrow> PluginResult" where
  "stringify_result r = r\<lparr>result_output := json_roundtrip (result_output r),
                          result_metadata := json_roundtrip (result_metadata r)\<rparr>"

definition stringify_task :: "Task \<Rightarrow> Task" where
  "stringify_task t = t\<lparr>task_description := json_roundtrip (task_description t),
                        config := json_roundtrip (config t)\<rparr>"

definition stringify_execution :: "TaskExecution \<Rightarrow> TaskExecution" where
  "stringify_execution te = te\<lparr>task := stringify_task (task te), result := map_option stringify_result (result te)\<rparr>"

definition stringify_run :: "PipelineRun \<Rightarrow> PipelineRun" where
  "stringify_run run =
     run\<lparr>run_tasks := map stringify_execution (run_tasks run),
         run_trigger := (run_trigger run)\<lparr>trigger_config := json_roundtrip (trigger_config (run_trigger run))\<rparr>\<rparr>"

text \<open>\<open>xs.findIndex(P)\<close>; \<open>None\<close> stands for -1.\<close>

fun findIndex :: "('a \<Rightarrow> bool) \<Rightarrow> 'a list \<Rightarrow> nat option" where
  "findIndex P [] = None"
| "findIndex P (x # xs) = (if P x then Some 0 else map_option Suc (findIndex P xs))"

definition file_savePipelineRun :: "FileState \<Rightarrow> PipelineRun \<Rightarrow> FileState" where
  "file_savePipelineRun st run =
     (let runs = (case pipeline_runs st of None \<Rightarrow> [] | Some rs \<Rightarrow> rs);
          runs1 = (case findIndex (\<lambda>r. run_id r = run_id run) runs of
                     Some existingIndex \<Rightarrow> runs[existingIndex := stringify_run run]
                   | None \<Rightarrow> runs @ [stringify_run run])
      in st\<lparr>pipeline_runs := Some runs1\<rparr>)"

definition file_getPipelineRun :: "FileState \<Rightarrow> string \<Rightarrow> PipelineRun option" where
  "file_getPipelineRun st runId =
     (let runs = (case pipeline_runs st of None \<Rightarrow> [] | Some rs \<Rightarrow> rs)
      in find (\<lambda>r. run_id r = runId) runs)"

subsubsection \<open>SQLiteStateManager\<close>

text \<open>
  The rows of the tables \<open>runs\<close> and \<open>tasks\<close>, with the columns the statements name. A column
  that holds JSON text holds the value the text decodes to; NULL is \<open>None\<close>.
\<close>

record run_row =
  row_id :: string
  row_pipeline_name :: string
  row_status :: PipelineStatus
  row_started_at :: nat
  row_completed_at :: "nat option"
  row_trigger_type :: TriggerType
  row_trigger_config :: jsval
  row_error_text :: "string option"

record task_row =
  row_run_id :: string
  row_task_id :: string
  row_task_name :: string
  row_task_status :: TaskStatus
  row_task_started_at :: "nat option"
  row_task_completed_at :: "nat option"
  row_attempts :: nat
  row_result_output :: "jsval option"
  row_result_error :: "string option"
  row_result_metadata :: "jsval option"

record SQLiteState =
  runs_table :: "run_row list"
  tasks_table :: "task_row list"

text \<open>
  The row written for one task execution: \<open>result?.output ? JSON.stringify(output) : null\<close>,
  \<open>result?.error || null\<close>, and the same for the metadata.
\<close>

definition task_row_of :: "string \<Rightarrow> TaskExecution \<Rightarrow> task_row" where
  "task_row_of runId taskExec =
     \<lparr>row_run_id = runId,
      row_task_id = task_id (task taskExec),
      row_task_name = task_name (task taskExec),
      row_task_status = status taskExec,
      row_task_started_at = startedAt taskExec,
      row_task_completed_at = completedAt taskExec,
      row_attempts = attempts taskExec,
      row_result_output =
        (case result taskExec of
           None \<Rightarrow> None
         | Some r \<Rightarrow> if truthy (result_output r) then Some (json_roundtrip (result_output r)) else None),
      row_result_error =
        (case result taskExec of
           None \<Rightarrow> None
         | Some r \<Rightarrow> (case result_error r of None \<Rightarrow> None | Some e \<Rightarrow> if e = [] then None else Some e)),
      row_result_metadata =
        (case result taskExec of
           None \<Rightarrow> None
         | Some r \<Rightarrow> if truthy (result_metadata r) then Some (json_roundtrip (result_metadata r)) else None)\<rparr>"

text \<open>
  \<open>INSERT OR REPLACE\<close> into \<open>runs\<close> replaces the row of the same primary key \<open>id\<close>. The
  primary key of \<open>tasks\<close> is an AUTOINCREMENT column that the statement does not give, so
  every \<open>INSERT OR REPLACE\<close> into \<open>tasks\<close> adds a row. \<open>JSON.stringify\<close> of an undefined
  trigger configuration binds NULL, which reads back as null.
\<close>

definition sqlite_savePipelineRun :: "SQLiteState \<Rightarrow> PipelineRun \<Rightarrow> SQLiteState" where
  "sqlite_savePipelineRun db run =
     \<lparr>runs_table =
        filter (\<lambda>r. row_id r \<noteq> run_id run) (runs_table db) @
        [\<lparr>row_id = run_id run,
          row_pipeline_name = pipelineName run,
          row_status = run_status run,
          row_started_at = run_startedAt run,
          row_completed_at = run_completedAt run,
          row_trigger_type = trigger_type (run_trigger run),
          row_trigger_config =
            (if trigger_config (run_trigger run) = JUndefined then JNull
             else json_roundtrip (trigger_config (run_trigger run))),
          row_error_text = run_error run\<rparr>],
      tasks_table = tasks_table db @ map (task_row_of (run_id run)) (run_tasks run)\<rparr>"

text \<open>The task execution rebuilt from a row of \<open>tasks\<close>.\<close>

definition execution_of_row :: "task_row \<Rightarrow> TaskExecution" where
  "execution_of_row row =
     \<lparr>task = \<lparr>task_id = row_task_id row,
               task_name = row_task_name row,
               task_description = JUndefined,
               plugin = [],
               config = JObj [],
               dependsOn = None,
               retry = None,
               timeout = None,
               enabled = None\<rparr>,
      status = row_task_status row,
      result = Some \<lparr>success = (row_task_status row = Success),
                     result_output = (case row_result_output row of None \<Rightarrow> JUndefined | Some v \<Rightarrow> v),
                     result_error = (case row_result_error row of None \<Rightarrow> None
                                     | Some e \<Rightarrow> if e = [] then None else Some e),
                     result_metadata = (case row_result_metadata row of None \<Rightarrow> JUndefined | Some v \<Rightarrow> v)\<rparr>,
      startedAt = row_task_started_at row,
      completedAt = row_task_completed_at row,
      attempts = row_attempts row\<rparr>"

definition sqlite_getPipelineRun :: "SQLiteState \<Rightarrow> string \<Rightarrow> PipelineRun option" where
  "sqlite_getPipelineRun db runId =
     (case find (\<lambda>r. row_id r = runId) (runs_table db) of
        None \<Rightarrow> None
      | Some runRow \<Rightarrow>
          Some \<lparr>run_id = row_id runRow,
                pipelineName = row_pipeline_name runRow,
                run_status = row_status runRow,
                run_startedAt = row_started_at runRow,
                run_completedAt = row_completed_at runRow,
                run_tasks = map execution_of_row (filter (\<lambda>row. row_run_id row = runId) (tasks_table db)),
                run_trigger = \<lparr>trigger_type = row_trigger_type runRow,
                               trigger_config = row_trigger_config runRow\<rparr>,
                run_error = (case row_error_text runRow of None \<Rightarrow> None
                             | Some e \<Rightarrow> if e = [] then None else Some e)\<rparr>)"

subsection \<open>The executor (core/executor.ts)\<close>

text \<open>
  The context handed to a plugin; the logger and the handle of the state store are left
  out. \<open>previousResults\<close> is a \<open>Map\<close>, here the list of its entries.
\<close>

record ExecutionContext =
  ctx_pipeline :: Pipeline
  ctx_task :: Task
  executionId :: string
  previousResults :: "(string \<times> PluginResult) list"
  variables :: jsval

text \<open>
  The environment. A call \<open>plugin.execute(config, context)\<close> returns a promise; what the
  model needs of it is when it settles and how: after \<open>d\<close> milliseconds, rejected with the
  message of an error (\<open>Inl\<close>) or fulfilled with a result (\<open>Inr\<close>). A plugin has effects, so
  its successive calls for one task may differ: the third argument is the number of the
  attempt (it is not an argument of the code). Every promise of a plugin settles.
\<close>

type_synonym settlement = "string + PluginResult"

type_synonym plugin_execute = "jsval \<Rightarrow> ExecutionContext \<Rightarrow> nat \<Rightarrow> nat \<times> settlement"

record ExecutorOptions =
  maxConcurrency :: int
  opt_timeout :: int
  continueOnError :: bool

text \<open>The executor object: its options and \<open>pluginLoader.loadPlugin\<close> (null is \<open>None\<close>).\<close>

record Executor =
  options :: ExecutorOptions
  loadPlugin :: "string \<Rightarrow> plugin_execute option"

text \<open>The constructor: \<open>maxConcurrency || 5\<close>, \<open>timeout || 0\<close>, \<open>continueOnError || false\<close>.\<close>

definition createExecutor :: "(string \<Rightarrow> plugin_execute option) \<Rightarrow> int option \<Rightarrow> int option \<Rightarrow> bool option \<Rightarrow> Executor" where
  "createExecutor pluginLoader mc tmo coe =
     \<lparr>options = \<lparr>maxConcurrency = (case mc of Some n \<Rightarrow> if n \<noteq> 0 then n else 5 | None \<Rightarrow> 5),
                  opt_timeout = (case tmo of Some n \<Rightarrow> n | None \<Rightarrow> 0),
                  continueOnError = (case coe of Some b \<Rightarrow> b | None \<Rightarrow> False)\<rparr>,
      loadPlugin = pluginLoader\<rparr>"

text \<open>
  What is pending on a task execution: nothing, the promise of a plugin call (or of its
  race with the timeout) that settles at a time in a given way, or the timer of a retry
  that fires at a time.
\<close>

datatype activity = Idle | Busy nat settlement | Timer nat

text \<open>
  A task execution of \<open>run.tasks\<close> together with what is pending on it and with the
  contexts its plugin has been called with so far (the last two are the model's view of
  the event loop and of the plugin; the code holds the first only).
\<close>

record task_cell =
  cell_exec :: TaskExecution
  cell_activity :: activity
  cell_calls :: "ExecutionContext list"

subsubsection \<open>executeTask\<close>

text \<open>The context built at lines 192 to 200: \<open>previousResults: new Map()\<close>, \<open>variables: pipeline.env || {}\<close>.\<close>

definition make_context :: "Pipeline \<Rightarrow> Task \<Rightarrow> string \<Rightarrow> ExecutionContext" where
  "make_context pipeline t eid =
     \<lparr>ctx_pipeline = pipeline,
      ctx_task = t,
      executionId = eid,
      previousResults = [],
      variables = (if truthy (env pipeline) then env pipeline else JObj [])\<rparr>"

text \<open>
  \<open>setTimeout(callback, delay)\<close> of Node.js: a delay below 1 or above 2147483647 is
  replaced by 1. The callback runs that many milliseconds after the call.
\<close>

definition timer_delay :: "int \<Rightarrow> nat" where
  "timer_delay d = (if 1 \<le> d \<and> d \<le> 2147483647 then nat d else 1)"

text \<open>
  \<open>executeWithTimeout\<close>: the timer of the timeout is armed before the plugin is called, so
  the plugin wins the race only when it settles strictly earlier than the timer fires.
\<close>

definition executeWithTimeout :: "nat \<Rightarrow> nat \<times> settlement \<Rightarrow> int \<Rightarrow> activity" where
  "executeWithTimeout now outcome tmo =
     (if fst outcome < timer_delay tmo then Busy (now + fst outcome) (snd outcome)
      else Busy (now + timer_delay tmo)
             (Inl (''Task execution timed out after '' @ Number_toString tmo @ ''ms'')))"

text \<open>
  The part of \<open>executeTask\<close> that runs when it is called, at time \<open>now\<close>: the test of
  \<open>task.enabled\<close>, the transition to running, the lookup of the plugin and its call. A
  missing plugin is an error thrown at once, that is a promise rejected at \<open>now\<close>.
\<close>

definition executeTask_start :: "Executor \<Rightarrow> Pipeline \<Rightarrow> string \<Rightarrow> nat \<Rightarrow> task_cell \<Rightarrow> task_cell" where
  "executeTask_start ex pipeline eid now c =
     (let taskExecution = cell_exec c; t = task taskExecution in
      if enabled t \<noteq> Some True
        then c\<lparr>cell_exec := taskExecution\<lparr>status := Skipped\<rparr>, cell_activity := Idle\<rparr>
      else
        let te1 = taskExecution\<lparr>startedAt := Some now, status := Running, attempts := attempts taskExecution + 1\<rparr>
        in case loadPlugin ex (plugin t) of
             None \<Rightarrow> c\<lparr>cell_exec := te1, cell_activity := Busy now (Inl (''Plugin not found: '' @ plugin t))\<rparr>
           | Some pl \<Rightarrow>
               let context = make_context pipeline t eid;
                   taskTimeout = (case timeout t of
                                    Some n \<Rightarrow> if n \<noteq> 0 then n else opt_timeout (options ex)
                                  | None \<Rightarrow> opt_timeout (options ex));
                   outcome = pl (config t) context (attempts te1)
               in c\<lparr>cell_exec := te1,
                    cell_activity := (if taskTimeout > 0 then executeWithTimeout now outcome taskTimeout
                                      else Busy (now + fst outcome) (snd outcome)),
                    cell_calls := cell_calls c @ [context]\<rparr>)"

text \<open>
  The \<open>catch\<close> block of \<open>executeTask\<close>, entered at time \<open>now\<close> with the message of the error.
  Returns the task execution, what is pending on it afterwards, and how the promise of
  \<open>executeTask\<close> settles: \<open>None\<close> when it is fulfilled, the message when it is rejected.
\<close>

definition executeTask_catch :: "Executor \<Rightarrow> nat \<Rightarrow> TaskExecution \<Rightarrow> string \<Rightarrow> TaskExecution \<times> activity \<times> string option" where
  "executeTask_catch ex now taskExecution msg =
     (let te1 = taskExecution\<lparr>status := Failed, completedAt := Some now,
                  result := Some \<lparr>success = False, result_output = JUndefined,
                                  result_error = Some msg, result_metadata = JUndefined\<rparr>\<rparr>
      in case retry (task taskExecution) of
           Some rp \<Rightarrow>
             if int (attempts te1) < retry_attempts rp
               then (te1\<lparr>status := Pending, startedAt := None, completedAt := None, result := None\<rparr>,
                     Timer (now + timer_delay (retry_delay rp)), None)
             else (te1, Idle, if continueOnError (options ex) then None else Some msg)
         | None \<Rightarrow> (te1, Idle, if continueOnError (options ex) then None else Some msg))"

text \<open>
  The rest of the \<open>try\<close> block once the promise of the plugin has settled at time \<open>now\<close>:
  a result that is no success throws into the \<open>catch\<close> block, as a rejection does.
\<close>

definition executeTask_settle :: "Executor \<Rightarrow> nat \<Rightarrow> TaskExecution \<Rightarrow> settlement \<Rightarrow> TaskExecution \<times> activity \<times> string option" where
  "executeTask_settle ex now taskExecution v =
     (case v of
        Inr r \<Rightarrow>
          let te1 = taskExecution\<lparr>result := Some r,
                                  status := (if success r then Success else Failed),
                                  completedAt := Some now\<rparr>
          in if success r then (te1, Idle, None)
             else executeTask_catch ex now te1
                    (''Task execution failed: '' @ (case result_error r of None \<Rightarrow> ''undefined'' | Some e \<Rightarrow> e))
      | Inl msg \<Rightarrow> executeTask_catch ex now taskExecution msg)"

definition settle_cell :: "Executor \<Rightarrow> nat \<Rightarrow> task_cell \<Rightarrow> settlement \<Rightarrow> task_cell" where
  "settle_cell ex now c v =
     (case executeTask_settle ex now (cell_exec c) v of
        (te, a, r) \<Rightarrow> c\<lparr>cell_exec := te, cell_activity := a\<rparr>)"

text \<open>
  The events of one task execution up to a horizon: a promise that settles at or before
  the horizon is handled, and a retry timer that is due strictly before the horizon fires
  (a timer callback runs after the promise reactions of its instant), calling
  \<open>executeTask\<close> again. No horizon means: until nothing is pending.
\<close>

definition settles_by :: "nat option \<Rightarrow> nat \<Rightarrow> bool" where
  "settles_by horizon t = (case horizon of None \<Rightarrow> True | Some h \<Rightarrow> t \<le> h)"

definition fires_before :: "nat option \<Rightarrow> nat \<Rightarrow> bool" where
  "fires_before horizon t = (case horizon of None \<Rightarrow> True | Some h \<Rightarrow> t < h)"

definition retries_left :: "TaskExecution \<Rightarrow> nat" where
  "retries_left te = (case retry (task te) of None \<Rightarrow> 0 | Some rp \<Rightarrow> nat (retry_attempts rp - int (attempts te)))"

definition cell_measure :: "task_cell \<Rightarrow> nat" where
  "cell_measure c =
     (case cell_activity c of
        Idle \<Rightarrow> 0
      | Busy t v \<Rightarrow> 2 * retries_left (cell_exec c) + 1
      | Timer t \<Rightarrow> max 2 (2 * retries_left (cell_exec c)))"

lemma cell_measure_settle:
  "cell_activity c = Busy t v \<Longrightarrow> cell_measure (settle_cell ex t' c v) < cell_measure c"
  by (auto simp: cell_measure_def settle_cell_def executeTask_settle_def executeTask_catch_def
        retries_left_def Let_def split: sum.splits option.splits if_splits)

lemma cell_measure_start:
  "cell_activity c = Timer t \<Longrightarrow> cell_measure (executeTask_start ex pipeline eid t' c) < cell_measure c"
  by (auto simp: cell_measure_def executeTask_start_def executeWithTimeout_def
        retries_left_def Let_def split: option.splits if_splits)

function advance :: "Executor \<Rightarrow> Pipeline \<Rightarrow> string \<Rightarrow> nat option \<Rightarrow> task_cell \<Rightarrow> task_cell" where
  "advance ex pipeline eid horizon c =
     (case cell_activity c of
        Idle \<Rightarrow> c
      | Busy t v \<Rightarrow>
          if settles_by horizon t then advance ex pipeline eid horizon (settle_cell ex t c v) else c
      | Timer t \<Rightarrow>
          if fires_before horizon t
          then advance ex pipeline eid horizon (executeTask_start ex pipeline eid t c)
          else c)"
  by pat_completeness auto
termination
  by (relation "measure (\<lambda>(ex, pipeline, eid, horizon, c). cell_measure c)")
     (auto simp: cell_measure_settle cell_measure_start)

declare advance.simps [simp del]

subsubsection \<open>The concurrency gate and one round of executeTasks\<close>

text \<open>
  A promise, as far as the loop observes it: the time at which it settles, and \<open>None\<close> when
  it is fulfilled or the message of the error it is rejected with.
\<close>

type_synonym promise = "nat \<times> string option"

text \<open>The promise that \<open>executeTask\<close> returns, for a cell on which it has just been started at \<open>now\<close>.\<close>

definition executeTask_promise :: "Executor \<Rightarrow> nat \<Rightarrow> task_cell \<Rightarrow> promise" where
  "executeTask_promise ex now c =
     (case cell_activity c of
        Busy t v \<Rightarrow> (t, snd (snd (executeTask_settle ex t (cell_exec c) v)))
      | _ \<Rightarrow> (now, None))"

text \<open>\<open>Promise.race\<close> of a non-empty list: the promise that settles first, the earlier in the list on a tie.\<close>

definition race :: "promise \<Rightarrow> promise list \<Rightarrow> promise" where
  "race p ps = fold (\<lambda>q best. if fst q < fst best then q else best) ps p"

text \<open>\<open>Map.prototype.set\<close> on the list of the entries of a map.\<close>

fun map_set :: "'k \<Rightarrow> 'v \<Rightarrow> ('k \<times> 'v) list \<Rightarrow> ('k \<times> 'v) list" where
  "map_set k v [] = [(k, v)]"
| "map_set k v ((k', v') # kvs) = (if k = k' then (k, v) # kvs else (k', v') # map_set k v kvs)"

text \<open>
  What \<open>executeTaskWithConcurrency\<close> does with a task of the round: it calls \<open>executeTask\<close>
  at a time, or never calls it because \<open>waitForSlot\<close> threw at a time the error of the
  promise that won its race.
\<close>

datatype dispatch = Started nat | NotStarted nat string

text \<open>
  The calls \<open>executableTasks.map(executeTaskWithConcurrency)\<close> of one round, made one after
  the other at time \<open>now\<close> before any promise reaction runs. \<open>active\<close> holds the entries of
  \<open>activeExecutions\<close>, which is empty when a round starts (the executor runs one pipeline
  at a time). A call that finds fewer than \<open>maxConcurrency\<close> entries starts its task and
  adds an entry. A call that finds the map full awaits \<open>waitForSlot\<close>: the race of the
  promises in the map at that moment, or nothing when the map is empty; it starts its task
  when the race is won by a fulfilled promise and throws when it is won by a rejected one.
\<close>

fun dispatch_round :: "Executor \<Rightarrow> Pipeline \<Rightarrow> string \<Rightarrow> nat \<Rightarrow> task_cell list \<Rightarrow> nat list \<Rightarrow> (string \<times> promise) list \<Rightarrow> (nat \<times> dispatch) list" where
  "dispatch_round ex pipeline eid now cells [] active = []"
| "dispatch_round ex pipeline eid now cells (i # rest) active =
     (if int (length active) \<ge> maxConcurrency (options ex) then
        (case map snd active of
           [] \<Rightarrow> (i, Started now) # dispatch_round ex pipeline eid now cells rest active
         | p # ps \<Rightarrow>
             (case race p ps of
                (t, None) \<Rightarrow> (i, Started t) # dispatch_round ex pipeline eid now cells rest active
              | (t, Some m) \<Rightarrow> (i, NotStarted t m) # dispatch_round ex pipeline eid now cells rest active))
      else
        (i, Started now) #
        dispatch_round ex pipeline eid now cells rest
          (map_set (task_id (task (cell_exec (cells ! i))))
                   (executeTask_promise ex now (executeTask_start ex pipeline eid now (cells ! i)))
                   active))"

text \<open>The promise that \<open>executeTaskWithConcurrency\<close> returns for a task of the round.\<close>

definition round_promise :: "Executor \<Rightarrow> Pipeline \<Rightarrow> string \<Rightarrow> task_cell list \<Rightarrow> nat \<times> dispatch \<Rightarrow> promise" where
  "round_promise ex pipeline eid cells d =
     (case snd d of
        Started s \<Rightarrow> executeTask_promise ex s (executeTask_start ex pipeline eid s (cells ! fst d))
      | NotStarted t m \<Rightarrow> (t, Some m))"

text \<open>
  \<open>Promise.all\<close>, called at \<open>now\<close>: rejected as soon as one promise is rejected, with its
  error; otherwise fulfilled when the last promise is.
\<close>

definition promise_all :: "nat \<Rightarrow> promise list \<Rightarrow> promise" where
  "promise_all now ps =
     (case filter (\<lambda>p. snd p \<noteq> None) ps of
        [] \<Rightarrow> (fold max (map fst ps) now, None)
      | r # rs \<Rightarrow> race r rs)"

text \<open>
  One round of the loop of \<open>executeTasks\<close>, started at \<open>now\<close> on the executable tasks (given
  by their positions in \<open>run.tasks\<close>). Returns how \<open>await Promise.all\<close> ends, the time at
  which it does, and every task execution as it is at that time: a task of the round that
  was started has run from its start, and any other task execution has gone on with what
  was pending on it (the retries of earlier rounds). A task of the round never starts
  after that time: a race is won no later than the first rejection and than the last
  fulfilment.
\<close>

definition run_round :: "Executor \<Rightarrow> Pipeline \<Rightarrow> string \<Rightarrow> nat \<Rightarrow> task_cell list \<Rightarrow> nat list \<Rightarrow> string option \<times> nat \<times> task_cell list" where
  "run_round ex pipeline eid now cells executableTasks =
     (let ds = dispatch_round ex pipeline eid now cells executableTasks [];
          all = promise_all now (map (round_promise ex pipeline eid cells) ds);
          T = fst all
      in (snd all, T,
          map (\<lambda>j. case map_of ds j of
                      Some (Started s) \<Rightarrow>
                        if s \<le> T then advance ex pipeline eid (Some T) (executeTask_start ex pipeline eid s (cells ! j))
                        else cells ! j
                    | Some (NotStarted t m) \<Rightarrow> cells ! j
                    | None \<Rightarrow> advance ex pipeline eid (Some T) (cells ! j))
              [0..<length cells]))"

subsubsection \<open>executeTasks and executePipeline\<close>

text \<open>
  \<open>getExecutableTasks\<close> returns objects of \<open>run.tasks\<close>, which the loop then mutates; here it
  returns their positions.
\<close>

definition getExecutableTasks :: "TaskExecution list \<Rightarrow> string list \<Rightarrow> nat list" where
  "getExecutableTasks taskExecutions executed =
     filter (\<lambda>i. let te = taskExecutions ! i in
                 if task_id (task te) \<in> set executed \<or> status te \<noteq> Pending then False
                 else list_all (\<lambda>depId. case find (\<lambda>t. task_id (task t) = depId) taskExecutions of
                                          None \<Rightarrow> False
                                        | Some dep \<Rightarrow> status dep = Success \<or> status dep = Skipped)
                               (deps (task te)))
            [0..<length taskExecutions]"

lemma length_run_round:
  "run_round ex pipeline eid now cells xs = (r, T, cells') \<Longrightarrow> length cells' = length cells"
  by (auto simp: run_round_def Let_def)

lemma getExecutableTasks_fresh:
  "i \<in> set (getExecutableTasks tes executed) \<Longrightarrow> task_id (task (tes ! i)) \<notin> set executed"
  by (auto simp: getExecutableTasks_def Let_def split: if_splits)

text \<open>
  The loop of \<open>executeTasks\<close>, from a time, the set \<open>executed\<close> and the task executions.
  Returns the message of the error thrown (\<open>None\<close> when the loop ends normally), the time,
  and the task executions at that time.
\<close>

function executeTasks :: "Executor \<Rightarrow> Pipeline \<Rightarrow> string \<Rightarrow> nat \<times> string list \<times> task_cell list \<Rightarrow> string option \<times> nat \<times> task_cell list" where
  "executeTasks ex pipeline eid (now, executed, cells) =
     (if card (set executed) < length cells then
        (let executableTasks = getExecutableTasks (map cell_exec cells) executed in
         if executableTasks = []
           then (Some ''Pipeline deadlock - circular dependencies detected'', now, cells)
         else
           (case run_round ex pipeline eid now cells executableTasks of
              (Some m, T, cells') \<Rightarrow> (Some m, T, cells')
            | (None, T, cells') \<Rightarrow>
                executeTasks ex pipeline eid
                  (T, executed @ map (\<lambda>i. task_id (task (cell_exec (cells ! i)))) executableTasks, cells')))
      else (None, now, cells))"
  by pat_completeness auto
termination
proof (relation "measure (\<lambda>(ex, pipeline, eid, now, executed, cells). length cells - card (set executed))", goal_cases)
  case 1
  then show ?case by simp
next
  case (2 ex pipeline eid now executed cells xs r rest T cells')
  have xs: "xs = getExecutableTasks (map cell_exec cells) executed" using 2 by simp
  have ne: "xs \<noteq> []" using 2 by simp
  have lt: "card (set executed) < length cells" using 2 by simp
  have rr: "run_round ex pipeline eid now cells xs = (r, T, cells')" using 2 by simp
  then have len: "length cells' = length cells"
    by (rule length_run_round)
  obtain i where i: "i \<in> set xs" using ne by (cases xs) auto
  have fresh: "task_id (task (map cell_exec cells ! i)) \<notin> set executed"
    using i getExecutableTasks_fresh [of i "map cell_exec cells" executed] xs by simp
  have "i < length cells" using i xs by (auto simp: getExecutableTasks_def)
  with fresh have fresh': "task_id (task (cell_exec (cells ! i))) \<notin> set executed" by simp
  let ?new = "map (\<lambda>i. task_id (task (cell_exec (cells ! i)))) xs"
  have "set executed \<subset> set (executed @ ?new)"
    using i fresh' by auto
  then have "card (set executed) < card (set (executed @ ?new))"
    by (intro psubset_card_mono) auto
  with lt len xs show ?case by simp
qed

declare executeTasks.simps [simp del]

text \<open>The status assigned at lines 67 to 79.\<close>

definition final_status :: "TaskExecution list \<Rightarrow> PipelineStatus" where
  "final_status ts =
     (let hasFailures = list_ex (\<lambda>t. status t = Failed) ts;
          hasRunning = list_ex (\<lambda>t. status t = Running) ts;
          allSkipped = list_all (\<lambda>t. status t = Skipped) ts
      in if hasRunning then RunRunning
         else if hasFailures then RunFailed
         else if allSkipped then RunCancelled
         else RunSuccess)"

text \<open>
  The task execution that \<open>executePipeline\<close> creates for a task,
  \<open>{task, status: 'pending', attempts: 0}\<close>, and its cell, on which nothing is pending.
\<close>

definition new_execution :: "Task \<Rightarrow> TaskExecution" where
  "new_execution t =
     \<lparr>task = t, status = Pending, result = None, startedAt = None, completedAt = None, attempts = 0\<rparr>"

definition new_cell :: "Task \<Rightarrow> task_cell" where
  "new_cell t = \<lparr>cell_exec = new_execution t, cell_activity = Idle, cell_calls = []\<rparr>"

text \<open>
  What \<open>executePipeline\<close> leaves behind when it returns: the run returned, the document of
  the state manager (the default one, the file backend), and the task executions with
  what is still pending on them (retries go on after the return and mutate the run).
\<close>

record execution =
  returned :: PipelineRun
  store :: FileState
  pending :: "task_cell list"

text \<open>
  \<open>executePipeline\<close>, called at time \<open>now\<close>. The \<open>try\<close> block builds the task executions,
  saves the run and awaits \<open>executeTasks\<close>; the \<open>catch\<close> block turns an error into the status
  failed and the message; the \<open>finally\<close> block stamps and saves the run. Saving is assumed
  not to fail.
\<close>

definition executePipeline :: "Executor \<Rightarrow> FileState \<Rightarrow> Pipeline \<Rightarrow> string \<Rightarrow> nat \<Rightarrow> execution" where
  "executePipeline ex st pipeline eid now =
     (let run0 = \<lparr>run_id = eid,
                  pipelineName = pipeline_name pipeline,
                  run_status = RunRunning,
                  run_startedAt = now,
                  run_completedAt = None,
                  run_tasks = [],
                  run_trigger = \<lparr>trigger_type = Manual, trigger_config = JObj []\<rparr>,
                  run_error = None\<rparr>;
          taskExecutions = map new_execution (tasks pipeline);
          run1 = run0\<lparr>run_tasks := taskExecutions\<rparr>;
          st1 = file_savePipelineRun st run1
      in case executeTasks ex pipeline eid (now, [], map new_cell (tasks pipeline)) of
           (err, T, cells) \<Rightarrow>
             let run2 = run1\<lparr>run_tasks := map cell_exec cells\<rparr>;
                 run3 = (case err of
                           None \<Rightarrow> run2\<lparr>run_status := final_status (run_tasks run2)\<rparr>
                         | Some m \<Rightarrow> run2\<lparr>run_status := RunFailed, run_error := Some m\<rparr>);
                 run4 = run3\<lparr>run_completedAt := Some T\<rparr>
             in \<lparr>returned = run4, store = file_savePipelineRun st1 run4, pending = cells\<rparr>)"

text \<open>
  The task executions of a run once everything that was pending at the return has
  happened: the object returned is the one the retries mutate.
\<close>

definition eventually :: "Executor \<Rightarrow> Pipeline \<Rightarrow> string \<Rightarrow> execution \<Rightarrow> TaskExecution list" where
  "eventually ex pipeline eid e = map (\<lambda>c. cell_exec (advance ex pipeline eid None c)) (pending e)"

subsection \<open>The scheduler (class PipelineScheduler)\<close>

text \<open>\<open>parseCronToInterval\<close>: the interval in milliseconds; both branches return 60000.\<close>

definition parseCronToInterval :: "string \<Rightarrow> nat" where
  "parseCronToInterval expression =
     (let parts = split_on CHR 0x20 expression
      in if length parts = 5 then 60000 else 60000)"

text \<open>
  The job that \<open>createCronJob\<close> returns: the interval its closure holds and its flag
  \<open>running\<close>. The time zone is not used by the code.
\<close>

record CronJob =
  cron_interval :: nat
  cron_running :: bool

definition createCronJob :: "string \<Rightarrow> string \<Rightarrow> CronJob" where
  "createCronJob expression timezone =
     \<lparr>cron_interval = parseCronToInterval expression, cron_running = False\<rparr>"

text \<open>
  The times at which a job calls its callback: \<open>start\<close> arms a timer of the interval, and
  \<open>execute\<close> calls the callback and arms the next timer. \<open>cron_fires interval armed n\<close> lists
  the first \<open>n\<close> calls after a timer was armed at \<open>armed\<close>.
\<close>

fun cron_fires :: "nat \<Rightarrow> nat \<Rightarrow> nat \<Rightarrow> nat list" where
  "cron_fires interval armed 0 = []"
| "cron_fires interval armed (Suc n) = (armed + interval) # cron_fires interval (armed + interval) n"

definition fire_times :: "CronJob \<Rightarrow> nat \<Rightarrow> nat \<Rightarrow> nat list" where
  "fire_times job started n = cron_fires (cron_interval job) started n"

text \<open>
  \<open>executeScheduledPipeline\<close>, the callback of a scheduled job: it calls the executor with
  the pipeline and a fresh execution id (\<open>uuidv4()\<close>, a parameter here); the trigger and the
  job id are not passed on.
\<close>

definition executeScheduledPipeline :: "Executor \<Rightarrow> FileState \<Rightarrow> Pipeline \<Rightarrow> PipelineTrigger \<Rightarrow> string \<Rightarrow> string \<Rightarrow> nat \<Rightarrow> execution" where
  "executeScheduledPipeline ex st pipeline trigger jobId eid now = executePipeline ex st pipeline eid now"

subsection \<open>Notions of the specification\<close>

text \<open>
  A root task, in the words of the specification: a task that has no dependencies and no
  dependents, a dependent of a task being a task of the pipeline that names it in its
  \<open>dependsOn\<close>.
\<close>

definition has_no_dependencies :: "Task \<Rightarrow> bool" where
  "has_no_dependencies t = (deps t = [])"

definition has_no_dependents :: "Pipeline \<Rightarrow> Task \<Rightarrow> bool" where
  "has_no_dependents pipeline t = (\<forall>u \<in> set (tasks pipeline). task_id t \<notin> set (deps u))"

definition root_tasks :: "Pipeline \<Rightarrow> Task list" where
  "root_tasks pipeline =
     filter (\<lambda>t. has_no_dependencies t \<and> has_no_dependents pipeline t) (tasks pipeline)"

text \<open>The error of the root check is recognised by the start of its message.\<close>

definition is_multiple_roots_error :: "string \<Rightarrow> bool" where
  "is_multiple_roots_error e = prefix ''Multiple root tasks found: '' e"











subsection \<open>Inputs for the examples\<close>

definition example_task :: "string \<Rightarrow> string \<Rightarrow> string list \<Rightarrow> RetryPolicy option \<Rightarrow> Task" where
  "example_task i p ds r =
     \<lparr>task_id = i, task_name = i, task_description = JUndefined, plugin = p, config = JObj [],
      dependsOn = Some ds, retry = r, timeout = None, enabled = Some True\<rparr>"

definition example_pipeline :: "Task list \<Rightarrow> Pipeline" where
  "example_pipeline ts =
     \<lparr>pipeline_name = ''example'', version = ''1.0.0'', pipeline_description = JUndefined, tasks = ts,
      triggers = None, concurrency = JUndefined, env = JUndefined, pipeline_timeout = JUndefined\<rparr>"

definition result_ok :: PluginResult where
  "result_ok = \<lparr>success = True, result_output = JObj [(''ok'', JBool True)],
                result_error = None, result_metadata = JUndefined\<rparr>"

definition result_boom :: PluginResult where
  "result_boom = \<lparr>success = False, result_output = JUndefined,
                  result_error = Some ''boom'', result_metadata = JUndefined\<rparr>"

text \<open>
  A plugin loader with four plugins: \<open>ok\<close> succeeds after 10 ms, \<open>slow\<close> succeeds after
  100 ms, \<open>boom\<close> returns \<open>{success: false, error: "boom"}\<close> after 5 ms, and \<open>flaky\<close> does the
  same on its first call and succeeds after 1000 ms on the later ones.
\<close>

definition example_loader :: "string \<Rightarrow> plugin_execute option" where
  "example_loader n =
     (if n = ''ok'' then Some (\<lambda>cfg ctx k. (10, Inr result_ok))
      else if n = ''slow'' then Some (\<lambda>cfg ctx k. (100, Inr result_ok))
      else if n = ''boom'' then Some (\<lambda>cfg ctx k. (5, Inr result_boom))
      else if n = ''flaky'' then Some (\<lambda>cfg ctx k. if k = 1 then (5, Inr result_boom) else (1000, Inr result_ok))
      else None)"

text \<open>The executor of the command line: \<open>createExecutor(pluginLoader, {continueOnError: false})\<close>.\<close>

definition example_executor :: Executor where
  "example_executor = createExecutor example_loader None None (Some False)"

definition empty_file :: FileState where
  "empty_file = \<lparr>pipeline_runs = None, file_kv = []\<rparr>"

definition empty_db :: SQLiteState where
  "empty_db = \<lparr>runs_table = [], tasks_table = []\<rparr>"

text \<open>The chain \<open>a \<rightarrow> b \<rightarrow> c\<close> in which the plugin of \<open>b\<close> fails and no task has a retry policy.\<close>

definition chain_abc :: Pipeline where
  "chain_abc = example_pipeline
     [example_task ''a'' ''ok'' [] None,
      example_task ''b'' ''boom'' [''a''] None,
      example_task ''c'' ''ok'' [''b''] None]"

text \<open>The linear pipeline \<open>fetch \<rightarrow> transform \<rightarrow> load\<close> in which every plugin succeeds.\<close>

definition linear_etl :: Pipeline where
  "linear_etl = example_pipeline
     [example_task ''fetch'' ''ok'' [] None,
      example_task ''transform'' ''ok'' [''fetch''] None,
      example_task ''load'' ''ok'' [''transform''] None]"







text \<open>Two tasks without dependencies and without dependents.\<close>

definition two_roots :: Pipeline where
  "two_roots = example_pipeline [example_task ''a'' ''ok'' [] None, example_task ''b'' ''ok'' [] None]"

text \<open>
  A configuration document whose pipeline has no \<open>name\<close>: its text,
  \<^verbatim>\<open>{"pipeline":{"version":"1.0.0","tasks":[{"id":"a","name":"A","plugin":"http_get"}]}}\<close>,
  the value that \<open>JSON.parse\<close> reads from that text, and the pipeline that the parser builds.
\<close>

definition quoted :: "string \<Rightarrow> string" where
  "quoted s = dq @ s @ dq"

definition text_without_name :: string where
  "text_without_name =
     ''{'' @ quoted ''pipeline'' @ '':{'' @ quoted ''version'' @ '':'' @ quoted ''1.0.0'' @ '','' @
     quoted ''tasks'' @ '':[{'' @ quoted ''id'' @ '':'' @ quoted ''a'' @ '','' @
     quoted ''name'' @ '':'' @ quoted ''A'' @ '','' @
     quoted ''plugin'' @ '':'' @ quoted ''http_get'' @ ''}]}}''"

definition config_without_name :: jsval where
  "config_without_name =
     JObj [(''pipeline'',
            JObj [(''version'', JStr ''1.0.0''),
                  (''tasks'', JArr [JObj [(''id'', JStr ''a''), (''name'', JStr ''A''),
                                          (''plugin'', JStr ''http_get'')]])])]"

definition example_JSON_parse :: "string \<Rightarrow> string + jsval" where
  "example_JSON_parse s =
     (if s = text_without_name then Inr config_without_name else Inl ''Unexpected token'')"

definition example_yaml_load :: "string \<Rightarrow> string + jsval" where
  "example_yaml_load s = Inl ''bad indentation''"

definition pipeline_without_name :: Pipeline where
  "pipeline_without_name =
     \<lparr>pipeline_name = ''unnamed-pipeline'', version = ''1.0.0'', pipeline_description = JUndefined,
      tasks = [\<lparr>task_id = ''a'', task_name = ''A'', task_description = JUndefined, plugin = ''http_get'',
                config = JObj [], dependsOn = Some [], retry = None, timeout = None, enabled = Some True\<rparr>],
      triggers = None, concurrency = JUndefined, env = JUndefined, pipeline_timeout = JUndefined\<rparr>"

text \<open>
  A configuration document, as decoded, whose only task has the number 5 as its \<open>name\<close>:
  \<^verbatim>\<open>{"pipeline":{"name":"p","version":"1.0.0","tasks":[{"id":"a","name":5,"plugin":"http_get"}]}}\<close>.
\<close>

definition config_numeric_task_name :: jsval where
  "config_numeric_task_name =
     JObj [(''pipeline'',
            JObj [(''name'', JStr ''p''), (''version'', JStr ''1.0.0''),
                  (''tasks'', JArr [JObj [(''id'', JStr ''a''), (''name'', JNum 5),
                                          (''plugin'', JStr ''http_get'')]])])]"

text \<open>A finished run of one task, as a caller hands it to \<open>savePipelineRun\<close>.\<close>

definition saved_run :: PipelineRun where
  "saved_run =
     \<lparr>run_id = ''run-1'', pipelineName = ''example'', run_status = RunSuccess,
      run_startedAt = 0, run_completedAt = Some 10,
      run_tasks =
        [\<lparr>task = (example_task ''fetch'' ''http_get'' [] None)
                    \<lparr>config := JObj [(''url'', JStr ''http://example.org'')]\<rparr>,
          status = Success, result = Some result_ok,
          startedAt = Some 0, completedAt = Some 10, attempts = 1\<rparr>],
      run_trigger = \<lparr>trigger_type = Manual, trigger_config = JObj []\<rparr>,
      run_error = None\<rparr>"

section \<open>Properties\<close>

subsection \<open>Auxiliary facts\<close>

lemma find_findIndex_update:
  "P r \<Longrightarrow> find P (case findIndex P runs of Some i \<Rightarrow> runs[i := r] | None \<Rightarrow> runs @ [r]) = Some r"
  by (induction runs) (auto split: option.splits)

text \<open>The file backend returns what it saved, as \<open>JSON.stringify\<close> wrote it.\<close>

lemma file_get_after_save:
  assumes "run_id run = k"
  shows "file_getPipelineRun (file_savePipelineRun st run) k = Some (stringify_run run)"
proof -
  have "run_id (stringify_run run) = k"
    using assms by (simp add: stringify_run_def)
  then show ?thesis
    using assms find_findIndex_update [of "\<lambda>r. run_id r = k" "stringify_run run"]
    by (simp add: file_getPipelineRun_def file_savePipelineRun_def Let_def)
qed

lemma executeTasks_no_tasks: "executeTasks ex pipeline eid (now, [], []) = (None, now, [])"
  by (simp add: executeTasks.simps)

lemma parseCronToInterval_constant: "parseCronToInterval expression = 60000"
  by (simp add: parseCronToInterval_def Let_def)

lemma executePipeline_trigger:
  "run_trigger (returned (executePipeline ex st pipeline eid now)) =
     \<lparr>trigger_type = Manual, trigger_config = JObj []\<rparr>"
  by (simp add: executePipeline_def Let_def split: prod.splits option.splits)

lemma executePipeline_stored:
  "file_getPipelineRun (store (executePipeline ex st pipeline eid now)) eid =
     Some (stringify_run (returned (executePipeline ex st pipeline eid now)))"
  by (simp add: executePipeline_def Let_def file_get_after_save split: prod.splits option.splits)

lemma orphanedTasks_root_tasks: "orphanedTasks pipeline = root_tasks pipeline"
  by (auto simp: orphanedTasks_def root_tasks_def has_no_dependencies_def has_no_dependents_def
        hasDependents_def deps_def intro!: filter_cong split: option.splits)

lemma multiple_roots_error_is: "is_multiple_roots_error (multiple_roots_error ts)"
  by (simp add: is_multiple_roots_error_def multiple_roots_error_def)

lemma circular_is_not: "\<not> is_multiple_roots_error (''Circular dependency detected involving task: '' @ x)"
  by (simp add: is_multiple_roots_error_def)

lemma missing_is_not: "e \<in> set (missing_dependency_errors ids t) \<Longrightarrow> \<not> is_multiple_roots_error e"
  by (auto simp: is_multiple_roots_error_def missing_dependency_errors_def)

lemma detectCycles_run_errors:
  "\<exists>ys. snd (snd (detectCycles_run ts fs st)) = snd (snd st) @ ys \<and> (\<forall>y \<in> set ys. \<not> is_multiple_roots_error y)"
proof (induction ts fs st rule: detectCycles_run.induct)
  case (1 ts st)
  then show ?case by simp
next
  case (2 ts taskId fs visited recursionStack errors)
  then show ?case by simp
next
  case (3 ts taskId fs visited recursionStack errors)
  show ?case
  proof (cases "taskId \<in> set recursionStack")
    case True
    with 3 obtain ys where
      "snd (snd (detectCycles_run ts (Enter taskId # fs) (visited, recursionStack, errors))) =
         (errors @ [''Circular dependency detected involving task: '' @ taskId]) @ ys"
      "\<forall>y \<in> set ys. \<not> is_multiple_roots_error y"
      by auto
    then show ?thesis
      using circular_is_not by (intro exI [of _ "[''Circular dependency detected involving task: '' @ taskId] @ ys"]) auto
  next
    case False
    with 3 show ?thesis by (cases "taskId \<in> set visited") auto
  qed
qed

lemma validateDAG_loop_errors:
  "\<exists>ys. snd (snd (validateDAG_loop ts ids rest st)) = snd (snd st) @ ys \<and> (\<forall>y \<in> set ys. \<not> is_multiple_roots_error y)"
proof (induction rest arbitrary: st)
  case Nil
  then show ?case by simp
next
  case (Cons t rest)
  obtain visited recursionStack errors where st: "st = (visited, recursionStack, errors)"
    by (cases st) auto
  define st1 where "st1 = (if task_id t \<notin> set (fst st) then detectCycles (task_id t) ts st else st)"
  obtain v1 s1 e1 where st1: "st1 = (v1, s1, e1)" by (cases st1) auto
  have "\<exists>ys. e1 = errors @ ys \<and> (\<forall>y \<in> set ys. \<not> is_multiple_roots_error y)"
    using detectCycles_run_errors [of ts "[Enter (task_id t)]" st] st st1 st1_def
    by (auto simp: detectCycles_def split: if_splits)
  then obtain ys1 where ys1: "e1 = errors @ ys1" "\<forall>y \<in> set ys1. \<not> is_multiple_roots_error y" by blast
  from Cons.IH [of "(v1, s1, e1 @ missing_dependency_errors ids t)"]
  obtain ys2 where ys2:
    "snd (snd (validateDAG_loop ts ids rest (v1, s1, e1 @ missing_dependency_errors ids t))) =
       (e1 @ missing_dependency_errors ids t) @ ys2"
    "\<forall>y \<in> set ys2. \<not> is_multiple_roots_error y"
    by auto
  have "validateDAG_loop ts ids (t # rest) st =
        validateDAG_loop ts ids rest (v1, s1, e1 @ missing_dependency_errors ids t)"
    using st1 st1_def by simp
  then show ?case
    using ys1 ys2 st missing_is_not
    by (intro exI [of _ "ys1 @ missing_dependency_errors ids t @ ys2"]) auto
qed































subsection \<open>The claims\<close>




text \<open>
  Claim C2 at the chain \<open>a \<rightarrow> b \<rightarrow> c\<close> in which the plugin of \<open>b\<close> returns
  \<open>{success: false, error: "boom"}\<close> and no task is retried. The run is failed, \<open>a\<close> is
  success and \<open>b\<close> is failed, but \<open>c\<close> is left pending with no result, at the return and
  ever after; the code has no step that marks a descendant skipped. With
  \<open>continueOnError\<close> on, \<open>c\<close> is pending as well and the run fails as a deadlock.
\<close>

theorem failed_ancestor_leaves_descendant_pending:
  "map (\<lambda>te. (task_id (task te), status te, result te = None))
       (run_tasks (returned (executePipeline example_executor empty_file chain_abc ''run-1'' 0))) =
     [(''a'', Success, False), (''b'', Failed, False), (''c'', Pending, True)]
   \<and> run_status (returned (executePipeline example_executor empty_file chain_abc ''run-1'' 0)) = RunFailed
   \<and> run_error (returned (executePipeline example_executor empty_file chain_abc ''run-1'' 0)) =
       Some ''Task execution failed: boom''
   \<and> map status (eventually example_executor chain_abc ''run-1''
                    (executePipeline example_executor empty_file chain_abc ''run-1'' 0)) =
       [Success, Failed, Pending]
   \<and> map status (run_tasks (returned (executePipeline (createExecutor example_loader None None (Some True))
                                         empty_file chain_abc ''run-1'' 0))) =
       [Success, Failed, Pending]
   \<and> run_error (returned (executePipeline (createExecutor example_loader None None (Some True))
                             empty_file chain_abc ''run-1'' 0)) =
       Some ''Pipeline deadlock - circular dependencies detected''"
  by code_simp

text \<open>
  Claim C3 at the pipeline \<open>fetch \<rightarrow> transform \<rightarrow> load\<close> in which every plugin succeeds.
  Each plugin is called once, and the context of every call, the one for \<open>load\<close> included,
  has an empty \<open>previousResults\<close>: the keys \<open>fetch\<close> and \<open>transform\<close> are not there. The
  context that \<open>executeTask\<close> builds has an empty \<open>previousResults\<close> for every task.
\<close>

theorem previousResults_is_always_empty:
  "previousResults (make_context pipeline t eid) = []
   \<and> map (\<lambda>c. (task_id (task (cell_exec c)), map (\<lambda>ctx. map fst (previousResults ctx)) (cell_calls c)))
         (pending (executePipeline example_executor empty_file linear_etl ''run-1'' 0)) =
       [(''fetch'', [[]]), (''transform'', [[]]), (''load'', [[]])]
   \<and> map status (run_tasks (returned (executePipeline example_executor empty_file linear_etl ''run-1'' 0))) =
       [Success, Success, Success]"
proof -
  have "previousResults (make_context pipeline t eid) = []"
    by (simp add: make_context_def)
  moreover have
    "map (\<lambda>c. (task_id (task (cell_exec c)), map (\<lambda>ctx. map fst (previousResults ctx)) (cell_calls c)))
         (pending (executePipeline example_executor empty_file linear_etl ''run-1'' 0)) =
       [(''fetch'', [[]]), (''transform'', [[]]), (''load'', [[]])]"
    by code_simp
  moreover have
    "map status (run_tasks (returned (executePipeline example_executor empty_file linear_etl ''run-1'' 0))) =
       [Success, Success, Success]"
    by code_simp
  ultimately show ?thesis by blast
qed

text \<open>
  Claim C4. A pipeline whose list of tasks is empty: \<open>executeTasks\<close> does nothing, no task
  has failed or is running, and \<open>every\<close> holds of the empty list, so the run is returned
  with status cancelled (not success) and no task record. Validation of an empty list of
  tasks adds the warning \<open>Pipeline has no tasks\<close> and no error.
\<close>

theorem empty_pipeline_is_cancelled:
  "run_status (returned (executePipeline ex st (pipeline\<lparr>tasks := []\<rparr>) eid now)) = RunCancelled
   \<and> run_tasks (returned (executePipeline ex st (pipeline\<lparr>tasks := []\<rparr>) eid now)) = []
   \<and> validateTasks [] warnings errors = Inr ([], warnings @ [''Pipeline has no tasks''], errors)"
  by (simp add: executePipeline_def executeTasks_no_tasks final_status_def validateTasks_def Let_def)




text \<open>
  Claim C6 at two readable documents, with \<open>strict\<close> off. The parser with the default
  options (\<open>validate\<close> on, \<open>strict\<close> off), given the document that has the \<open>pipeline\<close> key but
  no name, throws \<open>Pipeline validation failed\<close> instead of returning the pipeline with the
  error in \<open>errors\<close>; it returns them only with \<open>validate\<close> off. And with \<open>validate\<close> off and
  \<open>strict\<close> off, the document whose task has the number 5 as its name makes \<open>parse\<close> throw as
  well (\<open>trim\<close> is called on the number).
\<close>

theorem default_parser_throws_on_errors:
  "PipelineParser None None = \<lparr>opt_validate = True, opt_strict = False\<rparr>
   \<and> example_JSON_parse text_without_name = Inr config_without_name
   \<and> parse (PipelineParser None None) example_JSON_parse example_yaml_load text_without_name =
       Inl ''Pipeline validation failed''
   \<and> parse (PipelineParser (Some False) None) example_JSON_parse example_yaml_load text_without_name =
       Inr \<lparr>res_pipeline = pipeline_without_name, res_warnings = [],
            res_errors = [''Pipeline must have a non-empty '' @ dq @ ''name'' @ dq @ '' string'']\<rparr>
   \<and> case_sum (prefix ''Failed to parse pipeline configuration: '') (\<lambda>r. False)
        (parse (PipelineParser (Some False) (Some False)) (\<lambda>s. Inr config_numeric_task_name)
           example_yaml_load ''{}'')"
  by code_simp

text \<open>
  Claim C7 at a run of one task with the plugin \<open>http_get\<close> and a configuration. After
  \<open>savePipelineRun\<close>, the SQLite backend returns the task with the plugin \<open>''\<close> and the
  configuration \<open>{}\<close>, so the record is not the one saved, while the file backend returns
  the run as saved. Saving the run a second time adds its task rows again, and the run
  read back has two task records.
\<close>

theorem sqlite_loses_plugin_and_config:
  "map_option (\<lambda>r. map (\<lambda>te. (plugin (task te), config (task te))) (run_tasks r))
     (sqlite_getPipelineRun (sqlite_savePipelineRun empty_db saved_run) ''run-1'') = Some [([], JObj [])]
   \<and> map (\<lambda>te. (plugin (task te), config (task te))) (run_tasks saved_run) =
       [(''http_get'', JObj [(''url'', JStr ''http://example.org'')])]
   \<and> sqlite_getPipelineRun (sqlite_savePipelineRun empty_db saved_run) ''run-1'' \<noteq> Some saved_run
   \<and> file_getPipelineRun (file_savePipelineRun empty_file saved_run) ''run-1'' = Some saved_run
   \<and> map_option (\<lambda>r. length (run_tasks r))
       (sqlite_getPipelineRun (sqlite_savePipelineRun (sqlite_savePipelineRun empty_db saved_run) saved_run)
          ''run-1'') = Some 2"
  by code_simp

text \<open>
  Claim C8. The validator appends the error of the root check if and only if more than one
  task of the pipeline is a root, that is has no dependencies and no dependents; with one
  root or none, none of the errors it appends is that error. The validator only appends:
  the errors it was given stay first.
\<close>

theorem multiple_roots_error_iff:
  "(\<exists>e \<in> set (drop (length errors) (validateDAGStructure pipeline errors)). is_multiple_roots_error e)
     = (1 < length (root_tasks pipeline))
   \<and> take (length errors) (validateDAGStructure pipeline errors) = errors"
proof -
  obtain v s e where loop: "validateDAG_loop (tasks pipeline) (map task_id (tasks pipeline)) (tasks pipeline) ([], [], errors) = (v, s, e)"
    by (cases "validateDAG_loop (tasks pipeline) (map task_id (tasks pipeline)) (tasks pipeline) ([], [], errors)") auto
  with validateDAG_loop_errors [of "tasks pipeline" "map task_id (tasks pipeline)" "tasks pipeline" "([], [], errors)"]
  obtain ys where ys: "e = errors @ ys" "\<forall>y \<in> set ys. \<not> is_multiple_roots_error y" by auto
  show ?thesis
    using loop ys multiple_roots_error_is
    by (auto simp: validateDAGStructure_def orphanedTasks_root_tasks)
qed

text \<open>
  The claim at a pipeline of two tasks without dependencies, which gets the error, and at
  the chain \<open>fetch \<rightarrow> transform \<rightarrow> load\<close>, which has no root in that sense and gets none.
\<close>

theorem multiple_roots_error_iff_witness:
  "1 < length (root_tasks two_roots)
   \<and> (\<exists>e \<in> set (drop (length ([] :: string list)) (validateDAGStructure two_roots [])). is_multiple_roots_error e)
   \<and> validateDAGStructure two_roots [] = [''Multiple root tasks found: a, b. Pipeline should have a single entry point.'']
   \<and> validateDAGStructure linear_etl [] = []"
proof -
  have "1 < length (root_tasks two_roots)" by code_simp
  moreover from this multiple_roots_error_iff [of "[]" two_roots]
  have "\<exists>e \<in> set (drop (length ([] :: string list)) (validateDAGStructure two_roots [])). is_multiple_roots_error e"
    by blast
  moreover have "validateDAGStructure two_roots [] = [''Multiple root tasks found: a, b. Pipeline should have a single entry point.'']"
    by code_simp
  moreover have "validateDAGStructure linear_etl [] = []" by code_simp
  ultimately show ?thesis by blast
qed

text \<open>
  Claim C9. The interval of a cron job does not depend on its expression: it is 60000 ms
  for every expression. A job created for \<open>0 2 * * *\<close> (daily at 02:00) and started at
  time 0 calls its callback after one, two and three minutes.
\<close>

theorem cron_interval_is_fixed:
  "parseCronToInterval expression = 60000
   \<and> cron_interval (createCronJob expression timezone) = 60000
   \<and> fire_times (createCronJob ''0 2 * * *'' ''UTC'') 0 3 = [60000, 120000, 180000]"
  by (simp add: fire_times_def createCronJob_def parseCronToInterval_constant numeral_3_eq_3)

text \<open>
  Claim C10. The run that \<open>executePipeline\<close> creates has the trigger
  \<open>{type: 'manual', config: {}}\<close>, whoever called it: a direct call, or the callback of a
  scheduled job, which does not pass its cron trigger on. The run recorded in the state
  store under the execution id has the same trigger.
\<close>

theorem run_trigger_is_manual:
  "run_trigger (returned (executePipeline ex st pipeline eid now)) =
     \<lparr>trigger_type = Manual, trigger_config = JObj []\<rparr>
   \<and> run_trigger (returned (executeScheduledPipeline ex st pipeline trigger jobId eid now)) =
     \<lparr>trigger_type = Manual, trigger_config = JObj []\<rparr>
   \<and> map_option run_trigger
       (file_getPipelineRun (store (executeScheduledPipeline ex st pipeline trigger jobId eid now)) eid) =
     Some \<lparr>trigger_type = Manual, trigger_config = JObj []\<rparr>"
  by (simp add: executeScheduledPipeline_def executePipeline_trigger executePipeline_stored stringify_run_def)

end
